theory Spec2Isabelle
  imports Main "HOL-Library.Word"
begin

section \<open>The Pantamak API client (src/lib/api.ts) and its data hooks\<close>

text \<open>
  JavaScript numbers that hold counts, HTTP status codes and millisecond delays are
  modelled as unbounded integers; rounding of large or fractional doubles and the
  value NaN are outside this model.
\<close>

subsection \<open>Thrown values\<close>

text \<open>
  Every value the code throws or catches. \<open>APIError\<close> and its subclass
  \<open>NetworkError\<close> are the two classes of api.ts; \<open>TypeError\<close> is the built-in
  class; \<open>OtherError name message code\<close> is any other error object (a DOMException,
  a SyntaxError, a URIError, ...), with its \<open>code\<close> property when that is a string;
  \<open>Undefined\<close> is the value of an unassigned variable.
\<close>

datatype js_error =
    APIError string "int option" "string option" "js_error option"
  | NetworkError string "js_error option"
  | TypeError string
  | OtherError string string "string option"
  | Undefined

text \<open>\<open>error instanceof APIError\<close>: true on the subclass as well.\<close>

fun instanceof_APIError :: "js_error \<Rightarrow> bool" where
  "instanceof_APIError (APIError m s c orig) = True"
| "instanceof_APIError (NetworkError m orig) = True"
| "instanceof_APIError e = False"

fun instanceof_NetworkError :: "js_error \<Rightarrow> bool" where
  "instanceof_NetworkError (NetworkError m orig) = True"
| "instanceof_NetworkError e = False"

fun instanceof_TypeError :: "js_error \<Rightarrow> bool" where
  "instanceof_TypeError (TypeError m) = True"
| "instanceof_TypeError e = False"

text \<open>\<open>error instanceof Error\<close>: every error object, not \<open>undefined\<close>.\<close>

fun instanceof_Error :: "js_error \<Rightarrow> bool" where
  "instanceof_Error Undefined = False"
| "instanceof_Error e = True"

text \<open>
  The properties the code reads. The constructor of \<open>NetworkError\<close> calls
  \<open>super(message, 0, 'NETWORK_ERROR', originalError)\<close> and then sets the name.
\<close>

fun name_of :: "js_error \<Rightarrow> string" where
  "name_of (APIError m s c orig) = ''APIError''"
| "name_of (NetworkError m orig) = ''NetworkError''"
| "name_of (TypeError m) = ''TypeError''"
| "name_of (OtherError n m c) = n"
| "name_of Undefined = []"

fun message_of :: "js_error \<Rightarrow> string" where
  "message_of (APIError m s c orig) = m"
| "message_of (NetworkError m orig) = m"
| "message_of (TypeError m) = m"
| "message_of (OtherError n m c) = m"
| "message_of Undefined = []"

fun status_of :: "js_error \<Rightarrow> int option" where
  "status_of (APIError m s c orig) = s"
| "status_of (NetworkError m orig) = Some 0"
| "status_of e = None"

fun code_of :: "js_error \<Rightarrow> string option" where
  "code_of (APIError m s c orig) = c"
| "code_of (NetworkError m orig) = Some ''NETWORK_ERROR''"
| "code_of (OtherError n m c) = c"
| "code_of e = None"

subsection \<open>Numbers in template literals\<close>

definition digit_char :: "nat \<Rightarrow> char" where
  "digit_char d = ''0123456789ABCDEF'' ! (d mod 16)"

fun nat_digits :: "nat \<Rightarrow> string" where
  "nat_digits n = (if n < 10 then [digit_char n] else nat_digits (n div 10) @ [digit_char (n mod 10)])"

declare nat_digits.simps [simp del]

text \<open>\<open>String(n)\<close> for an integer \<open>n\<close>.\<close>

definition number_to_string :: "int \<Rightarrow> string" where
  "number_to_string i = (if i < 0 then CHR ''-'' # nat_digits (nat (- i)) else nat_digits (nat i))"

subsection \<open>Retry policy and delay schedule\<close>

record RetryConfig =
  maxRetries :: int
  baseDelay :: int
  maxDelay :: int
  backoffMultiplier :: int

definition DEFAULT_RETRY_CONFIG :: RetryConfig where
  "DEFAULT_RETRY_CONFIG =
     \<lparr>maxRetries = 3, baseDelay = 1000, maxDelay = 10000, backoffMultiplier = 2\<rparr>"

text \<open>
  \<open>Math.pow(config.backoffMultiplier, attempt)\<close> for the loop counter \<open>attempt\<close>,
  a natural number, then \<open>Math.min\<close>.
\<close>

definition calculateDelay :: "nat \<Rightarrow> RetryConfig \<Rightarrow> int" where
  "calculateDelay attempt config =
     (let delay = baseDelay config * backoffMultiplier config ^ attempt
      in min delay (maxDelay config))"

subsection \<open>The network\<close>

text \<open>
  An \<open>AbortSignal\<close> is identified by the controller it belongs to: one a caller
  created, or the one \<open>fetchWithRetry\<close> creates in its attempt number \<open>k\<close>.
\<close>

datatype AbortSignal = CallerSignal nat | TimeoutSignal nat

record RequestInit =
  signal :: "AbortSignal option"
  headers :: "(string \<times> string) list"

text \<open>
  What \<open>await response.json()\<close> gives, as far as \<open>apiRequest\<close> reads it: the call
  throws; or the body is \<open>null\<close>; or it is a value whose property \<open>success\<close> is
  truthy or not, whose property \<open>error\<close> is a message when it is truthy, and whose
  property \<open>data\<close> is the payload when it is present.
\<close>

datatype 'a json_outcome =
    JsonThrows js_error
  | JsonNull
  | JsonEnvelope bool "string option" "'a option"

record 'a Response =
  status :: int
  json :: "'a json_outcome"

text \<open>\<open>response.ok\<close>: the status is in the range 200 to 299.\<close>

definition ok :: "'a Response \<Rightarrow> bool" where
  "ok response = (200 \<le> status response \<and> status response \<le> 299)"

datatype 'a fetch_outcome = Resolves "'a Response" | Rejects js_error

text \<open>
  The network decides the outcome of the call to \<open>fetch\<close> made in attempt \<open>k\<close>
  with a URL and an init object.
\<close>

type_synonym 'a network = "nat \<Rightarrow> string \<Rightarrow> RequestInit \<Rightarrow> 'a fetch_outcome"

text \<open>Object spread: a later key replaces the value of an earlier one in place.\<close>

fun assign :: "(string \<times> string) list \<Rightarrow> string \<Rightarrow> string \<Rightarrow> (string \<times> string) list" where
  "assign [] k v = [(k, v)]"
| "assign ((k', v') # kvs) k v = (if k' = k then (k, v) # kvs else (k', v') # assign kvs k v)"

definition spread :: "(string \<times> string) list \<Rightarrow> (string \<times> string) list \<Rightarrow> (string \<times> string) list" where
  "spread target source = fold (\<lambda>(k, v) acc. assign acc k v) source target"

text \<open>
  The init object of one attempt: \<open>{...options, signal: controller.signal, headers: {...}}\<close>,
  where \<open>controller\<close> is the one created in this attempt.
\<close>

definition attempt_init :: "RequestInit \<Rightarrow> nat \<Rightarrow> RequestInit" where
  "attempt_init options attempt =
     options\<lparr>signal := Some (TimeoutSignal attempt),
             headers := spread [(''Content-Type'', ''application/json''),
                                (''Accept'', ''application/json'')] (headers options)\<rparr>"

subsection \<open>fetchWithRetry\<close>

text \<open>What a call did: the requests it made, the delays it slept, and how it ended.\<close>

record 'r run =
  requests :: "(string \<times> RequestInit) list"
  sleeps :: "int list"
  outcome :: "js_error + 'r"

text \<open>The \<open>try\<close> block of one attempt, from the outcome of \<open>fetch\<close>.\<close>

definition try_block :: "'a fetch_outcome \<Rightarrow> js_error + 'a Response" where
  "try_block out =
     (case out of
        Rejects e \<Rightarrow> Inl e
      | Resolves response \<Rightarrow>
          if ok response then Inr response
          else if status response < 500 then
            Inl (APIError (''HTTP error! status: '' @ number_to_string (status response))
                   (Some (status response)) (Some ''HTTP_ERROR'') None)
          else
            Inl (APIError (''Server error: '' @ number_to_string (status response))
                   (Some (status response)) (Some ''SERVER_ERROR'') None))"

text \<open>\<open>error instanceof APIError && error.status && error.status < 500\<close>\<close>

definition non_retriable :: "js_error \<Rightarrow> bool" where
  "non_retriable error =
     (instanceof_APIError error \<and>
      (case status_of error of None \<Rightarrow> False | Some s \<Rightarrow> s \<noteq> 0 \<and> s < 500))"

text \<open>
  \<open>error instanceof TypeError || error.name === 'AbortError' || error.code === 'NETWORK_ERR'\<close>
\<close>

definition is_network_failure :: "js_error \<Rightarrow> bool" where
  "is_network_failure error =
     (instanceof_TypeError error \<or> name_of error = ''AbortError''
      \<or> code_of error = Some ''NETWORK_ERR'')"

definition connect_message :: string where
  "connect_message = ''Unable to connect to the server. Please check your internet connection.''"

text \<open>Reading a property of \<open>undefined\<close> throws.\<close>

definition undefined_read :: js_error where
  "undefined_read = TypeError ''Cannot read properties of undefined''"

text \<open>
  The loop from \<open>attempt\<close> on, with the current value of \<open>lastError\<close>. The
  \<open>console.log\<close> before each sleep is not modelled.
\<close>

function fetchWithRetry_loop ::
  "'a network \<Rightarrow> string \<Rightarrow> RequestInit \<Rightarrow> RetryConfig \<Rightarrow> nat \<Rightarrow> js_error \<Rightarrow> 'a Response run"
where
  "fetchWithRetry_loop net url options retryConfig attempt lastError =
     (if int attempt \<le> maxRetries retryConfig then
        (let init = attempt_init options attempt in
         case try_block (net attempt url init) of
           Inr response \<Rightarrow> \<lparr>requests = [(url, init)], sleeps = [], outcome = Inr response\<rparr>
         | Inl error \<Rightarrow>
             if non_retriable error then
               \<lparr>requests = [(url, init)], sleeps = [], outcome = Inl error\<rparr>
             else if error = Undefined then
               \<lparr>requests = [(url, init)], sleeps = [], outcome = Inl undefined_read\<rparr>
             else
               (let lastError' =
                      (if is_network_failure error
                       then NetworkError connect_message (Some error) else error)
                in if int attempt = maxRetries retryConfig then
                     \<lparr>requests = [(url, init)], sleeps = [], outcome = Inl lastError'\<rparr>
                   else
                     (let delay = calculateDelay attempt retryConfig;
                          rest = fetchWithRetry_loop net url options retryConfig
                                   (Suc attempt) lastError'
                      in rest\<lparr>requests := (url, init) # requests rest,
                              sleeps := delay # sleeps rest\<rparr>)))
      else \<lparr>requests = [], sleeps = [], outcome = Inl lastError\<rparr>)"
  by pat_completeness auto
termination
  by (relation "measure (\<lambda>(net, url, options, retryConfig, attempt, lastError).
                  nat (maxRetries retryConfig + 1 - int attempt))") auto

declare fetchWithRetry_loop.simps [simp del]

definition fetchWithRetry ::
  "'a network \<Rightarrow> string \<Rightarrow> RequestInit \<Rightarrow> RetryConfig \<Rightarrow> 'a Response run"
where
  "fetchWithRetry net url options retryConfig =
     fetchWithRetry_loop net url options retryConfig 0 Undefined"

subsection \<open>JavaScript strings and their encodings\<close>

text \<open>
  Text whose code units the code counts or encodes (a search query, the keys and values
  of a parameter object) is a sequence of UTF-16 code units. Text the code only passes
  along (messages, error names, URLs once encoded) is a \<open>string\<close>.
\<close>

type_synonym js_string = "16 word list"

text \<open>A literal of the source.\<close>

definition js :: "string \<Rightarrow> js_string" where
  "js s = map (\<lambda>c. of_nat (of_char c)) s"

definition is_high_surrogate :: "16 word \<Rightarrow> bool" where
  "is_high_surrogate u = (0xD800 \<le> u \<and> u \<le> 0xDBFF)"

definition is_low_surrogate :: "16 word \<Rightarrow> bool" where
  "is_low_surrogate u = (0xDC00 \<le> u \<and> u \<le> 0xDFFF)"

text \<open>The code points of a string; \<open>None\<close> stands for an unpaired surrogate.\<close>

fun code_points :: "js_string \<Rightarrow> nat option list" where
  "code_points [] = []"
| "code_points [u] = [if is_high_surrogate u \<or> is_low_surrogate u then None else Some (unat u)]"
| "code_points (u # v # rest) =
     (if is_high_surrogate u \<and> is_low_surrogate v then
        Some (0x10000 + (unat u - 0xD800) * 0x400 + (unat v - 0xDC00)) # code_points rest
      else if is_high_surrogate u \<or> is_low_surrogate u then None # code_points (v # rest)
      else Some (unat u) # code_points (v # rest))"

text \<open>\<open>String.prototype.isWellFormed\<close>: no unpaired surrogate.\<close>

definition isWellFormed :: "js_string \<Rightarrow> bool" where
  "isWellFormed s = (None \<notin> set (code_points s))"

definition utf8 :: "nat \<Rightarrow> nat list" where
  "utf8 cp =
     (if cp < 0x80 then [cp]
      else if cp < 0x800 then [0xC0 + cp div 0x40, 0x80 + cp mod 0x40]
      else if cp < 0x10000 then
        [0xE0 + cp div 0x1000, 0x80 + cp div 0x40 mod 0x40, 0x80 + cp mod 0x40]
      else
        [0xF0 + cp div 0x40000, 0x80 + cp div 0x1000 mod 0x40,
         0x80 + cp div 0x40 mod 0x40, 0x80 + cp mod 0x40])"

definition percent :: "nat \<Rightarrow> string" where
  "percent b = [CHR ''%'', digit_char (b div 16), digit_char (b mod 16)]"

definition alphanumeric :: "nat \<Rightarrow> bool" where
  "alphanumeric cp = ((48 \<le> cp \<and> cp \<le> 57) \<or> (65 \<le> cp \<and> cp \<le> 90) \<or> (97 \<le> cp \<and> cp \<le> 122))"

text \<open>
  \<open>encodeURIComponent\<close> keeps the letters, the digits and \<open>- _ . ! ~ * ' ( )\<close>,
  writes every other code point as its UTF-8 bytes in \<open>%XX\<close> form, and throws a
  URIError on an unpaired surrogate.
\<close>

definition uri_unreserved :: "nat \<Rightarrow> bool" where
  "uri_unreserved cp = (alphanumeric cp \<or> cp \<in> set [45, 95, 46, 33, 126, 42, 39, 40, 41])"

definition uri_encode_point :: "nat \<Rightarrow> string" where
  "uri_encode_point cp = (if uri_unreserved cp then [char_of cp] else concat (map percent (utf8 cp)))"

definition URIError :: js_error where
  "URIError = OtherError ''URIError'' ''URI malformed'' None"

fun uri_encode_points :: "nat option list \<Rightarrow> js_error + string" where
  "uri_encode_points [] = Inr []"
| "uri_encode_points (None # rest) = Inl URIError"
| "uri_encode_points (Some cp # rest) =
     (case uri_encode_points rest of Inl e \<Rightarrow> Inl e | Inr s \<Rightarrow> Inr (uri_encode_point cp @ s))"

definition encodeURIComponent :: "js_string \<Rightarrow> js_error + string" where
  "encodeURIComponent s = uri_encode_points (code_points s)"

text \<open>
  The serializer of \<open>URLSearchParams\<close> (application/x-www-form-urlencoded): an unpaired
  surrogate becomes U+FFFD, a space becomes \<open>+\<close>, the letters, the digits and
  \<open>* - . _\<close> are kept, every other code point is written as its UTF-8 bytes in
  \<open>%XX\<close> form; the pairs are joined by \<open>&\<close>.
\<close>

definition form_encode_point :: "nat \<Rightarrow> string" where
  "form_encode_point cp =
     (if cp = 32 then ''+''
      else if alphanumeric cp \<or> cp \<in> set [42, 45, 46, 95] then [char_of cp]
      else concat (map percent (utf8 cp)))"

definition form_encode :: "js_string \<Rightarrow> string" where
  "form_encode s =
     concat (map (\<lambda>p. form_encode_point (case p of None \<Rightarrow> 0xFFFD | Some cp \<Rightarrow> cp))
               (code_points s))"

type_synonym URLSearchParams = "(js_string \<times> js_string) list"

fun join_amp :: "string list \<Rightarrow> string" where
  "join_amp [] = []"
| "join_amp [x] = x"
| "join_amp (x # y # rest) = x @ ''&'' @ join_amp (y # rest)"

definition toString :: "URLSearchParams \<Rightarrow> string" where
  "toString searchParams =
     join_amp (map (\<lambda>(key, value). form_encode key @ ''='' @ form_encode value) searchParams)"

text \<open>
  The values of a parameter object: the primitive values. Numbers are integers here;
  arrays and objects as parameter values are outside this model.
\<close>

datatype js_value = JUndefined | JNull | JBoolean bool | JNumber int | JString js_string

text \<open>\<open>String(value)\<close>\<close>

fun String :: "js_value \<Rightarrow> js_string" where
  "String JUndefined = js ''undefined''"
| "String JNull = js ''null''"
| "String (JBoolean b) = (if b then js ''true'' else js ''false'')"
| "String (JNumber n) = js (number_to_string n)"
| "String (JString s) = s"

subsection \<open>apiRequest\<close>

text \<open>
  \<open>API_BASE_URL\<close> is read from the environment when the module is loaded; it is the
  parameter \<open>base\<close>. The run records the requests and sleeps of \<open>fetchWithRetry\<close>.
\<close>

definition default_base :: string where
  "default_base = ''https://shop.pantamak.com/api/v1''"

text \<open>The \<open>try\<close> block after \<open>fetchWithRetry\<close> has returned a response.\<close>

definition read_envelope :: "'a Response \<Rightarrow> js_error + 'a option" where
  "read_envelope response =
     (case json response of
        JsonThrows e \<Rightarrow> Inl e
      | JsonNull \<Rightarrow> Inl (TypeError ''Cannot read properties of null'')
      | JsonEnvelope success err payload \<Rightarrow>
          if \<not> success then
            Inl (APIError (case err of Some m \<Rightarrow> m | None \<Rightarrow> ''API request failed'')
                   (Some (status response)) (Some ''API_ERROR'') None)
          else Inr payload)"

text \<open>The \<open>catch\<close> block.\<close>

definition normalize :: "js_error \<Rightarrow> js_error" where
  "normalize error =
     (if instanceof_APIError error then error
      else APIError ''An unexpected error occurred'' (Some 500) (Some ''UNKNOWN_ERROR'')
             (if error = Undefined then None else Some error))"

definition apiRequest :: "string \<Rightarrow> 'a network \<Rightarrow> string \<Rightarrow> RequestInit \<Rightarrow> 'a option run" where
  "apiRequest base net endpoint options =
     (let url = base @ endpoint;
          fetched = fetchWithRetry net url options DEFAULT_RETRY_CONFIG;
          result = (case outcome fetched of
                      Inl e \<Rightarrow> Inl e
                    | Inr response \<Rightarrow> read_envelope response)
      in \<lparr>requests = requests fetched, sleeps = sleeps fetched,
          outcome = (case result of Inl error \<Rightarrow> Inl (normalize error) | Inr payload \<Rightarrow> Inr payload)\<rparr>)"

subsection \<open>PantamakAPI\<close>

text \<open>\<open>options: RequestInit = {}\<close>\<close>

definition no_options :: RequestInit where
  "no_options = \<lparr>signal = None, headers = []\<rparr>"

text \<open>
  The \<open>forEach\<close> over \<open>Object.entries(params)\<close>, in the order of the entries, on the
  \<open>URLSearchParams\<close> built so far.
\<close>

fun forEach_append :: "(js_string \<times> js_value) list \<Rightarrow> URLSearchParams \<Rightarrow> URLSearchParams" where
  "forEach_append [] searchParams = searchParams"
| "forEach_append ((key, value) # entries) searchParams =
     forEach_append entries
       (if value \<noteq> JUndefined \<and> value \<noteq> JNull \<and> value \<noteq> JString []
        then searchParams @ [(key, String value)] else searchParams)"

definition getProducts :: "string \<Rightarrow> 'a network \<Rightarrow> (js_string \<times> js_value) list \<Rightarrow> 'a option run" where
  "getProducts base net params =
     (let searchParams = forEach_append params []
      in apiRequest base net (''/products?'' @ toString searchParams) no_options)"

definition getProduct :: "string \<Rightarrow> 'a network \<Rightarrow> int \<Rightarrow> 'a option run" where
  "getProduct base net productId =
     apiRequest base net (''/products/'' @ number_to_string productId) no_options"


definition getShop :: "string \<Rightarrow> 'a network \<Rightarrow> int \<Rightarrow> 'a option run" where
  "getShop base net shopId =
     apiRequest base net (''/shops/'' @ number_to_string shopId) no_options"

definition getProductCategories :: "string \<Rightarrow> 'a network \<Rightarrow> 'a option run" where
  "getProductCategories base net = apiRequest base net ''/categories/products'' no_options"

definition getShopCategories :: "string \<Rightarrow> 'a network \<Rightarrow> 'a option run" where
  "getShopCategories base net = apiRequest base net ''/categories/shops'' no_options"

definition getCities :: "string \<Rightarrow> 'a network \<Rightarrow> 'a option run" where
  "getCities base net = apiRequest base net ''/cities'' no_options"

definition getStats :: "string \<Rightarrow> 'a network \<Rightarrow> 'a option run" where
  "getStats base net = apiRequest base net ''/stats'' no_options"

record ('s, 'p, 'c) SearchSuggestions =
  shops :: "'s list"
  products :: "'p list"
  categories :: "'c list"

text \<open>
  The argument of \<open>apiRequest\<close> is evaluated first: when \<open>encodeURIComponent\<close> throws,
  \<open>apiRequest\<close> is not called.
\<close>

definition getSearchSuggestions ::
  "string \<Rightarrow> ('s, 'p, 'c) SearchSuggestions network \<Rightarrow> js_string
     \<Rightarrow> ('s, 'p, 'c) SearchSuggestions option run"
where
  "getSearchSuggestions base net query =
     (if length query < 2 then
        \<lparr>requests = [], sleeps = [],
         outcome = Inr (Some \<lparr>shops = [], products = [], categories = []\<rparr>)\<rparr>
      else
        (case encodeURIComponent query of
           Inl e \<Rightarrow> \<lparr>requests = [], sleeps = [], outcome = Inl e\<rparr>
         | Inr encoded \<Rightarrow>
             apiRequest base net (''/search/suggestions?query='' @ encoded) no_options))"

subsection \<open>Error handling utilities\<close>

definition getErrorMessage :: "js_error \<Rightarrow> string" where
  "getErrorMessage error =
     (if instanceof_NetworkError error then
        ''Unable to connect to the server. Please check your internet connection and try again.''
      else if instanceof_APIError error then
        (if code_of error = Some ''HTTP_ERROR'' then
           (if status_of error = Some 404 then ''The requested resource was not found.''
            else if status_of error = Some 400 then
              ''Invalid request. Please check your input and try again.''
            else message_of error)
         else if code_of error = Some ''SERVER_ERROR'' then
           ''Server error. Please try again in a few moments.''
         else message_of error)
      else if instanceof_Error error then message_of error
      else ''An unexpected error occurred. Please try again.'')"

definition isRetriableError :: "js_error \<Rightarrow> bool" where
  "isRetriableError error =
     (if instanceof_NetworkError error then True
      else if instanceof_APIError error then
        (code_of error = Some ''SERVER_ERROR'' \<or> status_of error = None
         \<or> (case status_of error of None \<Rightarrow> False | Some s \<Rightarrow> 500 \<le> s))
      else False)"

subsection \<open>The products hook\<close>

text \<open>
  The state of one instance of \<open>useProducts\<close>. The \<open>AbortController\<close> objects the hook
  creates are numbered in the order of their creation; \<open>aborted\<close> holds those on which
  \<open>abort()\<close> has been called.
\<close>

record request_state =
  loading :: bool
  error :: "string option"

record 'd products_hook = request_state +
  data :: "'d option"
  abortControllerRef :: "nat option"
  aborted :: "nat list"
  created :: nat

definition useProducts_initial :: "bool \<Rightarrow> 'd products_hook" where
  "useProducts_initial enabled =
     \<lparr>loading = enabled, error = None, data = None, abortControllerRef = None,
      aborted = [], created = 0\<rparr>"

text \<open>\<open>if (abortControllerRef.current) abortControllerRef.current.abort()\<close>\<close>

definition abort_current :: "'d products_hook \<Rightarrow> 'd products_hook" where
  "abort_current s =
     (case abortControllerRef s of None \<Rightarrow> s | Some c \<Rightarrow> s\<lparr>aborted := c # aborted s\<rparr>)"

text \<open>
  \<open>fetchProducts\<close> up to its \<open>await\<close>. The call it then makes is
  \<open>PantamakAPI.getProducts(params)\<close>: the new controller and its signal are not
  among the arguments.
\<close>

definition fetchProducts_begin :: "bool \<Rightarrow> 'd products_hook \<Rightarrow> 'd products_hook" where
  "fetchProducts_begin enabled s =
     (if \<not> enabled then s
      else
        (let s1 = abort_current s;
             s2 = s1\<lparr>abortControllerRef := Some (created s1), created := Suc (created s1)\<rparr>
         in s2\<lparr>loading := True, error := None\<rparr>))"

text \<open>
  \<open>fetchProducts\<close> from its \<open>await\<close> on, when the promise of \<open>getProducts\<close> has
  settled: \<open>setData\<close>, or the \<open>catch\<close> block, then \<open>finally\<close>.
\<close>

definition fetchProducts_settle ::
  "'d products_hook \<Rightarrow> js_error + 'd option \<Rightarrow> 'd products_hook"
where
  "fetchProducts_settle s result =
     (let s1 = (case result of
                  Inr response \<Rightarrow> s\<lparr>data := response\<rparr>
                | Inl err \<Rightarrow>
                    if err = Undefined then s
                    else if name_of err \<noteq> ''AbortError''
                    then s\<lparr>error := Some (getErrorMessage err)\<rparr> else s)
      in s1\<lparr>loading := False\<rparr>)"

text \<open>The cleanup of the effect, run before the effect runs again.\<close>

definition effect_cleanup :: "'d products_hook \<Rightarrow> 'd products_hook" where
  "effect_cleanup s = abort_current s"

subsection \<open>The initial-data hook\<close>

record ('p, 'c, 't) initial_data = request_state +
  products :: "'p option"
  categories :: "'c option"
  cities :: "'t option"

definition useInitialData_initial :: "('p, 'c, 't) initial_data" where
  "useInitialData_initial =
     \<lparr>loading = True, error = None, products = None, categories = None, cities = None\<rparr>"

text \<open>An element of the result of \<open>Promise.allSettled\<close>.\<close>

datatype 'a settled = Fulfilled 'a | Rejected js_error

fun rejected :: "'a settled \<Rightarrow> bool" where
  "rejected (Rejected e) = True"
| "rejected (Fulfilled v) = False"

definition settle :: "js_error + 'a \<Rightarrow> 'a settled" where
  "settle result = (case result of Inl e \<Rightarrow> Rejected e | Inr v \<Rightarrow> Fulfilled v)"

text \<open>\<open>fetchInitialData\<close> up to its \<open>await\<close>.\<close>

definition fetchInitialData_begin :: "('p, 'c, 't) initial_data \<Rightarrow> ('p, 'c, 't) initial_data" where
  "fetchInitialData_begin s = s\<lparr>loading := True, error := None\<rparr>"

text \<open>
  \<open>fetchInitialData\<close> from its \<open>await\<close> on. \<open>Promise.allSettled\<close> does not reject,
  and nothing else in the \<open>try\<close> block throws, so the \<open>catch\<close> block does not run.
\<close>

definition fetchInitialData_settled ::
  "('p, 'c, 't) initial_data \<Rightarrow> 'p option settled \<Rightarrow> 'c option settled \<Rightarrow> 't option settled
     \<Rightarrow> ('p, 'c, 't) initial_data"
where
  "fetchInitialData_settled s productsResponse categoriesResponse citiesResponse =
     (let s1 = (case productsResponse of Fulfilled v \<Rightarrow> s\<lparr>products := v\<rparr> | Rejected e \<Rightarrow> s);
          s2 = (case categoriesResponse of Fulfilled v \<Rightarrow> s1\<lparr>categories := v\<rparr> | Rejected e \<Rightarrow> s1);
          s3 = (case citiesResponse of Fulfilled v \<Rightarrow> s2\<lparr>cities := v\<rparr> | Rejected e \<Rightarrow> s2);
          s4 = (if rejected productsResponse \<and> rejected categoriesResponse
                   \<and> rejected citiesResponse
                then s3\<lparr>error := Some ''Unable to load data. Please check your internet connection and try again.''\<rparr>
                else s3)
      in s4\<lparr>loading := False\<rparr>)"

definition fetchInitialData ::
  "string \<Rightarrow> 'p network \<Rightarrow> 'c network \<Rightarrow> 't network \<Rightarrow> ('p, 'c, 't) initial_data
     \<Rightarrow> ('p, 'c, 't) initial_data"
where
  "fetchInitialData base netP netC netT s =
     fetchInitialData_settled (fetchInitialData_begin s)
       (settle (outcome (getProducts base netP [(js ''page'', JNumber 1), (js ''per_page'', JNumber 20)])))
       (settle (outcome (getProductCategories base netC)))
       (settle (outcome (getCities base netT)))"

subsection \<open>Classes of failure\<close>

text \<open>
  The value of \<open>lastError\<close> at the end of the \<open>catch\<close> block of \<open>fetchWithRetry\<close>.
\<close>

definition classify :: "js_error \<Rightarrow> js_error" where
  "classify e = (if is_network_failure e then NetworkError connect_message (Some e) else e)"

text \<open>
  An attempt fails retriably when the server answers with a status of 500 or more, or
  when \<open>fetch\<close> rejects with an error object of its own (a transport failure), which
  is never an instance of the classes of api.ts.
\<close>

definition fails_retriably :: "'a fetch_outcome \<Rightarrow> bool" where
  "fails_retriably out =
     (case out of
        Resolves response \<Rightarrow> 500 \<le> status response
      | Rejects e \<Rightarrow> instanceof_Error e \<and> \<not> instanceof_APIError e)"

subsection \<open>Example networks\<close>

text \<open>The DOMException with which \<open>fetch\<close> rejects when its signal is aborted.\<close>

definition abort_error :: js_error where
  "abort_error = OtherError ''AbortError'' ''The operation was aborted.'' None"

text \<open>A server error, then a connection failure, then aborted requests.\<close>

definition flaky_net :: "unit network" where
  "flaky_net k url init =
     (if k = 0 then Resolves \<lparr>status = 503, json = JsonNull\<rparr>
      else if k = 1 then Rejects (TypeError ''Failed to fetch'')
      else Rejects abort_error)"

definition not_found_net :: "unit network" where
  "not_found_net k url init = Resolves \<lparr>status = 404, json = JsonNull\<rparr>"

text \<open>A server that is down.\<close>

definition server_down_net :: "unit network" where
  "server_down_net k url init = Resolves \<lparr>status = 503, json = JsonNull\<rparr>"

text \<open>No connection.\<close>

definition offline_net :: "unit network" where
  "offline_net k url init = Rejects (TypeError ''Failed to fetch'')"


definition suggest_net :: "(unit, unit, unit) SearchSuggestions network" where
  "suggest_net k url init =
     Resolves \<lparr>status = 200, json = JsonEnvelope True None
        (Some \<lparr>shops = [()], SearchSuggestions.products = [], SearchSuggestions.categories = []\<rparr>)\<rparr>"



text \<open>A server whose payload names the URL it was asked for.\<close>

definition echo_net :: "string network" where
  "echo_net k url init = Resolves \<lparr>status = 200, json = JsonEnvelope True None (Some url)\<rparr>"




section \<open>Properties\<close>

subsection \<open>The shape of the retry loop\<close>

lemma loop_return:
  "int attempt \<le> maxRetries cfg \<Longrightarrow>
   try_block (net attempt url (attempt_init options attempt)) = Inr response \<Longrightarrow>
   fetchWithRetry_loop net url options cfg attempt le =
     \<lparr>requests = [(url, attempt_init options attempt)], sleeps = [], outcome = Inr response\<rparr>"
  by (subst fetchWithRetry_loop.simps) (simp add: Let_def)

lemma loop_throw:
  "int attempt \<le> maxRetries cfg \<Longrightarrow>
   try_block (net attempt url (attempt_init options attempt)) = Inl e \<Longrightarrow>
   non_retriable e \<Longrightarrow>
   fetchWithRetry_loop net url options cfg attempt le =
     \<lparr>requests = [(url, attempt_init options attempt)], sleeps = [], outcome = Inl e\<rparr>"
  by (subst fetchWithRetry_loop.simps) (simp add: Let_def)

lemma loop_undefined:
  "int attempt \<le> maxRetries cfg \<Longrightarrow>
   try_block (net attempt url (attempt_init options attempt)) = Inl Undefined \<Longrightarrow>
   fetchWithRetry_loop net url options cfg attempt le =
     \<lparr>requests = [(url, attempt_init options attempt)], sleeps = [],
      outcome = Inl undefined_read\<rparr>"
  by (subst fetchWithRetry_loop.simps) (simp add: Let_def non_retriable_def)

lemma loop_last:
  "int attempt = maxRetries cfg \<Longrightarrow>
   try_block (net attempt url (attempt_init options attempt)) = Inl e \<Longrightarrow>
   \<not> non_retriable e \<Longrightarrow> e \<noteq> Undefined \<Longrightarrow>
   fetchWithRetry_loop net url options cfg attempt le =
     \<lparr>requests = [(url, attempt_init options attempt)], sleeps = [],
      outcome = Inl (classify e)\<rparr>"
  by (subst fetchWithRetry_loop.simps) (simp add: Let_def classify_def)

lemma loop_retry:
  "int attempt < maxRetries cfg \<Longrightarrow>
   try_block (net attempt url (attempt_init options attempt)) = Inl e \<Longrightarrow>
   \<not> non_retriable e \<Longrightarrow> e \<noteq> Undefined \<Longrightarrow>
   fetchWithRetry_loop net url options cfg attempt le =
     \<lparr>requests = (url, attempt_init options attempt)
                   # requests (fetchWithRetry_loop net url options cfg (Suc attempt) (classify e)),
      sleeps = calculateDelay attempt cfg
                 # sleeps (fetchWithRetry_loop net url options cfg (Suc attempt) (classify e)),
      outcome = outcome (fetchWithRetry_loop net url options cfg (Suc attempt) (classify e))\<rparr>"
  by (subst fetchWithRetry_loop.simps) (simp add: Let_def classify_def)

lemma loop_exit:
  "\<not> int attempt \<le> maxRetries cfg \<Longrightarrow>
   fetchWithRetry_loop net url options cfg attempt le =
     \<lparr>requests = [], sleeps = [], outcome = Inl le\<rparr>"
  by (subst fetchWithRetry_loop.simps) simp

text \<open>Every pass through the loop takes one of three shapes.\<close>

lemma loop_cases:
  obtains
    (exit) "\<not> int k \<le> maxRetries cfg"
      "fetchWithRetry_loop net url options cfg k le = \<lparr>requests = [], sleeps = [], outcome = Inl le\<rparr>"
  | (stop) out where "int k \<le> maxRetries cfg"
      "fetchWithRetry_loop net url options cfg k le =
         \<lparr>requests = [(url, attempt_init options k)], sleeps = [], outcome = out\<rparr>"
  | (retry) e where "int k < maxRetries cfg"
      "try_block (net k url (attempt_init options k)) = Inl e" "\<not> non_retriable e" "e \<noteq> Undefined"
      "fetchWithRetry_loop net url options cfg k le =
         \<lparr>requests = (url, attempt_init options k)
                       # requests (fetchWithRetry_loop net url options cfg (Suc k) (classify e)),
          sleeps = calculateDelay k cfg
                     # sleeps (fetchWithRetry_loop net url options cfg (Suc k) (classify e)),
          outcome = outcome (fetchWithRetry_loop net url options cfg (Suc k) (classify e))\<rparr>"
proof (cases "int k \<le> maxRetries cfg")
  case False
  then show ?thesis using exit loop_exit by blast
next
  case le: True
  show ?thesis
  proof (cases "try_block (net k url (attempt_init options k))")
    case (Inr response)
    from loop_return[of k cfg net url options response le, OF le Inr] show ?thesis using stop le by blast
  next
    case (Inl e)
    show ?thesis
    proof (cases "non_retriable e")
      case True
      from loop_throw[of k cfg net url options e le, OF le Inl True] show ?thesis using stop le by blast
    next
      case nr: False
      show ?thesis
      proof (cases "e = Undefined")
        case True
        with Inl loop_undefined[of k cfg net url options le, OF le] show ?thesis using stop le by blast
      next
        case nu: False
        show ?thesis
        proof (cases "int k = maxRetries cfg")
          case True
          from loop_last[of k cfg net url options e le, OF True Inl nr nu] show ?thesis using stop le by blast
        next
          case False
          with le have lt: "int k < maxRetries cfg" by simp
          from loop_retry[of k cfg net url options e le, OF lt Inl nr nu] show ?thesis using retry lt Inl nr nu by blast
        qed
      qed
    qed
  qed
qed


lemma loop_nonempty:
  "int k \<le> maxRetries cfg \<Longrightarrow> requests (fetchWithRetry_loop net url options cfg k le) \<noteq> []"
  by (cases rule: loop_cases[of k cfg net url options le]) simp_all



lemma fails_retriably_caught:
  assumes "fails_retriably out"
  shows "\<exists>e. try_block out = Inl e \<and> \<not> non_retriable e \<and> e \<noteq> Undefined \<and>
             classify e =
               (case out of
                  Resolves response \<Rightarrow>
                    APIError (''Server error: '' @ number_to_string (status response))
                      (Some (status response)) (Some ''SERVER_ERROR'') None
                | Rejects e \<Rightarrow>
                    if is_network_failure e then NetworkError connect_message (Some e) else e)"
proof (cases out)
  case (Resolves response)
  with assms have "500 \<le> status response" by (simp add: fails_retriably_def)
  then show ?thesis using Resolves
    by (simp add: try_block_def ok_def non_retriable_def classify_def is_network_failure_def)
next
  case (Rejects e)
  with assms have "instanceof_Error e" "\<not> instanceof_APIError e" by (simp_all add: fails_retriably_def)
  then show ?thesis using Rejects
    by (cases e) (simp_all add: try_block_def non_retriable_def classify_def)
qed

lemma loop_all_fail:
  assumes "maxRetries cfg = int n"
    and "k \<le> n"
    and "\<And>j. k \<le> j \<Longrightarrow> j \<le> n \<Longrightarrow> fails_retriably (net j url (attempt_init options j))"
  shows "fetchWithRetry_loop net url options cfg k le =
           \<lparr>requests = map (\<lambda>j. (url, attempt_init options j)) [k..<Suc n],
            sleeps = map (\<lambda>j. calculateDelay j cfg) [k..<n],
            outcome = Inl (case net n url (attempt_init options n) of
                  Resolves response \<Rightarrow>
                    APIError (''Server error: '' @ number_to_string (status response))
                      (Some (status response)) (Some ''SERVER_ERROR'') None
                | Rejects e \<Rightarrow>
                    if is_network_failure e then NetworkError connect_message (Some e) else e)\<rparr>"
  using assms(2,3)
proof (induction "n - k" arbitrary: k le)
  case 0
  then have kn: "k = n" by simp
  from 0 kn have "fails_retriably (net n url (attempt_init options n))" by simp
  from fails_retriably_caught[OF this] obtain e where
    e: "try_block (net n url (attempt_init options n)) = Inl e" "\<not> non_retriable e" "e \<noteq> Undefined"
    and c: "classify e = (case net n url (attempt_init options n) of
                  Resolves response \<Rightarrow>
                    APIError (''Server error: '' @ number_to_string (status response))
                      (Some (status response)) (Some ''SERVER_ERROR'') None
                | Rejects e \<Rightarrow>
                    if is_network_failure e then NetworkError connect_message (Some e) else e)"
    by blast
  have "int n = maxRetries cfg" using assms(1) by simp
  from loop_last[of n cfg net url options e le, OF this e] show ?case
    unfolding kn using c by simp
next
  case (Suc d)
  then have lt: "k < n" by simp
  from Suc.prems lt have "fails_retriably (net k url (attempt_init options k))" by simp
  from fails_retriably_caught[OF this] obtain e where
    e: "try_block (net k url (attempt_init options k)) = Inl e" "\<not> non_retriable e" "e \<noteq> Undefined"
    by blast
  have IH: "fetchWithRetry_loop net url options cfg (Suc k) (classify e) =
           \<lparr>requests = map (\<lambda>j. (url, attempt_init options j)) [Suc k..<Suc n],
            sleeps = map (\<lambda>j. calculateDelay j cfg) [Suc k..<n],
            outcome = Inl (case net n url (attempt_init options n) of
                  Resolves response \<Rightarrow>
                    APIError (''Server error: '' @ number_to_string (status response))
                      (Some (status response)) (Some ''SERVER_ERROR'') None
                | Rejects e \<Rightarrow>
                    if is_network_failure e then NetworkError connect_message (Some e) else e)\<rparr>"
    using Suc.hyps(1)[of "Suc k" "classify e"] Suc.hyps(2) Suc.prems lt by simp
  have "int k < maxRetries cfg" using lt assms(1) by simp
  from loop_retry[of k cfg net url options e le, OF this e] show ?case
    using lt by (simp add: IH upt_conv_Cons)
qed


subsection \<open>Retry budget\<close>

text \<open>
  Claim C1. For a retry policy with \<open>maxRetries = n\<close> and an operation that fails
  retriably on every attempt (a response with status 500 or more, or a transport
  failure), \<open>fetchWithRetry\<close> makes exactly \<open>n + 1\<close> requests, sleeps the scheduled
  delay between them, and raises the classified error of the last attempt: the
  SERVER_ERROR \<open>APIError\<close> for a response, the \<open>NetworkError\<close> wrapping the failure
  when the failure is a TypeError, an AbortError or has code NETWORK_ERR, and any other
  rejection value as it is.
\<close>

theorem fetchWithRetry_exhausts_retries:
  assumes "maxRetries cfg = int n"
    and "\<forall>k\<le>n. fails_retriably (net k url (attempt_init options k))"
  shows "fetchWithRetry net url options cfg =
           \<lparr>requests = map (\<lambda>k. (url, attempt_init options k)) [0..<n + 1],
            sleeps = map (\<lambda>k. calculateDelay k cfg) [0..<n],
            outcome = Inl (case net n url (attempt_init options n) of
                  Resolves response \<Rightarrow>
                    APIError (''Server error: '' @ number_to_string (status response))
                      (Some (status response)) (Some ''SERVER_ERROR'') None
                | Rejects e \<Rightarrow>
                    if is_network_failure e then NetworkError connect_message (Some e) else e)\<rparr>"
  using loop_all_fail[of cfg n 0 net url options Undefined] assms
  by (simp add: fetchWithRetry_def)

theorem fetchWithRetry_exhausts_retries_witness:
  "fails_retriably (flaky_net 0 ''/x'' (attempt_init no_options 0)) \<and>
   fails_retriably (flaky_net 1 ''/x'' (attempt_init no_options 1)) \<and>
   fails_retriably (flaky_net 2 ''/x'' (attempt_init no_options 2)) \<and>
   length (requests (fetchWithRetry flaky_net ''/x'' no_options
     \<lparr>maxRetries = 2, baseDelay = 1000, maxDelay = 10000, backoffMultiplier = 2\<rparr>)) = 3 \<and>
   sleeps (fetchWithRetry flaky_net ''/x'' no_options
     \<lparr>maxRetries = 2, baseDelay = 1000, maxDelay = 10000, backoffMultiplier = 2\<rparr>) = [1000, 2000] \<and>
   outcome (fetchWithRetry flaky_net ''/x'' no_options
     \<lparr>maxRetries = 2, baseDelay = 1000, maxDelay = 10000, backoffMultiplier = 2\<rparr>)
     = Inl (NetworkError connect_message (Some abort_error))"
proof -
  have h: "\<forall>k\<le>2. fails_retriably (flaky_net k ''/x'' (attempt_init no_options k))"
    by (simp add: flaky_net_def fails_retriably_def abort_error_def)
  have u: "[0..<3] = [0, 1, 2]" "[0..<2] = [0, Suc 0]" by (simp_all add: upt_conv_Cons)
  show ?thesis
    using h fetchWithRetry_exhausts_retries[of
        "\<lparr>maxRetries = 2, baseDelay = 1000, maxDelay = 10000, backoffMultiplier = 2\<rparr>" 2
        flaky_net "''/x''" no_options]
    by (simp add: u flaky_net_def calculateDelay_def is_network_failure_def abort_error_def
          fails_retriably_def)
qed

text \<open>
  Claim C4. When the first attempt gets a response with a status from 400 to 499,
  \<open>fetchWithRetry\<close> makes that one request, sleeps never, and raises the HTTP_ERROR
  \<open>APIError\<close> at once, whatever the retry budget \<open>maxRetries = n\<close> is.
\<close>

theorem fetchWithRetry_client_error_once:
  assumes "maxRetries cfg = int n"
    and "net 0 url (attempt_init options 0) = Resolves response"
    and "400 \<le> status response" and "status response \<le> 499"
  shows "fetchWithRetry net url options cfg =
           \<lparr>requests = [(url, attempt_init options 0)], sleeps = [],
            outcome = Inl (APIError (''HTTP error! status: '' @ number_to_string (status response))
                             (Some (status response)) (Some ''HTTP_ERROR'') None)\<rparr>"
proof -
  have t: "try_block (net 0 url (attempt_init options 0)) =
             Inl (APIError (''HTTP error! status: '' @ number_to_string (status response))
                    (Some (status response)) (Some ''HTTP_ERROR'') None)"
    using assms(2-4) by (simp add: try_block_def ok_def)
  have nr: "non_retriable (APIError (''HTTP error! status: '' @ number_to_string (status response))
                    (Some (status response)) (Some ''HTTP_ERROR'') None)"
    using assms(3,4) by (simp add: non_retriable_def)
  have "int 0 \<le> maxRetries cfg" using assms(1) by simp
  from loop_throw[of 0 cfg net url options _ Undefined, OF this t nr] show ?thesis
    by (simp add: fetchWithRetry_def)
qed

theorem fetchWithRetry_client_error_once_witness:
  "fetchWithRetry not_found_net ''/x'' no_options DEFAULT_RETRY_CONFIG =
     \<lparr>requests = [(''/x'', attempt_init no_options 0)], sleeps = [],
      outcome = Inl (APIError ''HTTP error! status: 404'' (Some 404) (Some ''HTTP_ERROR'') None)\<rparr>"
  using fetchWithRetry_client_error_once[of DEFAULT_RETRY_CONFIG 3 not_found_net "''/x''" no_options
          "\<lparr>status = 404, json = JsonNull\<rparr>"]
  by (simp add: DEFAULT_RETRY_CONFIG_def not_found_net_def number_to_string_def nat_digits.simps digit_char_def)

subsection \<open>Delay schedule\<close>


subsection \<open>Query strings\<close>



lemma apiRequest_requests:
  "requests (apiRequest base net endpoint options) =
     requests (fetchWithRetry net (base @ endpoint) options DEFAULT_RETRY_CONFIG)"
  by (simp add: apiRequest_def Let_def)


subsection \<open>Initial data\<close>

text \<open>
  Claim C7. On the first load of the initial-data hook, when the products fetch is
  fulfilled and the categories and cities fetches are rejected, the hook holds the
  fetched products, \<open>null\<close> categories and cities, and no error. From any earlier
  state such a load stores the products, leaves categories and cities as they were and
  leaves no error; and after any load the error is set exactly when all three fetches
  were rejected.
\<close>

theorem initial_data_partial_failure:
  "fetchInitialData_settled (fetchInitialData_begin useInitialData_initial)
      (Fulfilled v) (Rejected e1) (Rejected e2) =
     \<lparr>loading = False, error = None, products = v, categories = None, cities = None\<rparr>
   \<and> fetchInitialData_settled (fetchInitialData_begin s) (Fulfilled v) (Rejected e1) (Rejected e2) =
       s\<lparr>loading := False, error := None, products := v\<rparr>
   \<and> (error (fetchInitialData_settled (fetchInitialData_begin s) rp rc rt) \<noteq> None)
       = (rejected rp \<and> rejected rc \<and> rejected rt)"
  by (cases rp; cases rc; cases rt)
     (simp_all add: fetchInitialData_settled_def fetchInitialData_begin_def useInitialData_initial_def)

theorem initial_data_partial_failure_witness:
  "fetchInitialData default_base echo_net server_down_net offline_net useInitialData_initial =
     \<lparr>loading = False, error = None,
      products = Some ''https://shop.pantamak.com/api/v1/products?page=1&per_page=20'',
      categories = None, cities = None\<rparr>"
proof -
  have p: "settle (outcome (getProducts default_base echo_net
                     [(js ''page'', JNumber 1), (js ''per_page'', JNumber 20)])) =
             Fulfilled (Some ''https://shop.pantamak.com/api/v1/products?page=1&per_page=20'')"
    by code_simp
  have c: "settle (outcome (getProductCategories default_base server_down_net)) =
             Rejected (APIError ''Server error: 503'' (Some 503) (Some ''SERVER_ERROR'') None)"
    by code_simp
  have t: "settle (outcome (getCities default_base offline_net)) =
             Rejected (NetworkError connect_message (Some (TypeError ''Failed to fetch'')))"
    by code_simp
  show ?thesis
    unfolding fetchInitialData_def p c t
    by (rule initial_data_partial_failure[THEN conjunct1])
qed

subsection \<open>Retriable errors\<close>

text \<open>
  Claim C10. \<open>isRetriableError\<close> holds exactly of the instances of \<open>NetworkError\<close> and
  of the instances of \<open>APIError\<close> whose code is SERVER_ERROR, whose status is undefined
  or whose status is at least 500. It fails for every value that is not an \<open>APIError\<close>,
  a raw \<open>TypeError\<close> among them, although \<open>fetchWithRetry\<close> retries an attempt that
  was rejected with a \<open>TypeError\<close> whenever the budget allows.
\<close>

theorem isRetriableError_iff:
  "isRetriableError e =
     (instanceof_NetworkError e \<or>
      (instanceof_APIError e \<and>
        (code_of e = Some ''SERVER_ERROR'' \<or> status_of e = None \<or> (\<exists>s. status_of e = Some s \<and> 500 \<le> s))))
   \<and> (\<not> instanceof_APIError e \<longrightarrow> \<not> isRetriableError e)
   \<and> \<not> isRetriableError (TypeError m)
   \<and> (0 < maxRetries cfg \<and> net 0 url (attempt_init options 0) = Rejects (TypeError m)
        \<longrightarrow> 1 < length (requests (fetchWithRetry net url options cfg))
            \<and> sleeps (fetchWithRetry net url options cfg) \<noteq> [])"
proof -
  have a: "isRetriableError e =
     (instanceof_NetworkError e \<or>
      (instanceof_APIError e \<and>
        (code_of e = Some ''SERVER_ERROR'' \<or> status_of e = None \<or> (\<exists>s. status_of e = Some s \<and> 500 \<le> s))))"
    by (cases e) (auto simp: isRetriableError_def split: option.splits)
  have b: "\<not> instanceof_APIError e \<longrightarrow> \<not> isRetriableError e"
    by (cases e) (simp_all add: isRetriableError_def)
  have c: "\<not> isRetriableError (TypeError m)"
    by (simp add: isRetriableError_def)
  have d: "1 < length (requests (fetchWithRetry net url options cfg))
            \<and> sleeps (fetchWithRetry net url options cfg) \<noteq> []"
    if h: "0 < maxRetries cfg" "net 0 url (attempt_init options 0) = Rejects (TypeError m)"
  proof -
    have t: "try_block (net 0 url (attempt_init options 0)) = Inl (TypeError m)"
      using h(2) by (simp add: try_block_def)
    have lt: "int 0 < maxRetries cfg" using h(1) by simp
    have ne: "requests (fetchWithRetry_loop net url options cfg (Suc 0) (classify (TypeError m))) \<noteq> []"
      using h(1) by (intro loop_nonempty) simp
    from loop_retry[of 0 cfg net url options "TypeError m" Undefined, OF lt t] ne
    show ?thesis by (cases "requests (fetchWithRetry_loop net url options cfg (Suc 0) (classify (TypeError m)))")
        (simp_all add: fetchWithRetry_def non_retriable_def)
  qed
  from a b c d show ?thesis by blast
qed

theorem isRetriableError_iff_witness:
  "\<not> isRetriableError (TypeError ''Failed to fetch'') \<and>
   1 < length (requests (fetchWithRetry offline_net ''/x'' no_options DEFAULT_RETRY_CONFIG))"
  using isRetriableError_iff[of "TypeError ''Failed to fetch''" "''Failed to fetch''"
          DEFAULT_RETRY_CONFIG offline_net "''/x''" no_options]
  by (simp add: DEFAULT_RETRY_CONFIG_def offline_net_def)

subsection \<open>Aborted requests\<close>




subsection \<open>Typed errors\<close>

lemma normalize_typed: "instanceof_APIError (normalize e)"
  by (simp add: normalize_def)

lemma apiRequest_outcome:
  "outcome (apiRequest base net endpoint options) =
     (case outcome (fetchWithRetry net (base @ endpoint) options DEFAULT_RETRY_CONFIG) of
        Inl e \<Rightarrow> Inl (normalize e)
      | Inr response \<Rightarrow>
          (case read_envelope response of Inl e \<Rightarrow> Inl (normalize e) | Inr payload \<Rightarrow> Inr payload))"
  by (simp add: apiRequest_def Let_def split: sum.splits)





subsection \<open>Search suggestions\<close>

lemma uri_encode_points_well_formed:
  "None \<notin> set ps \<Longrightarrow> \<exists>encoded. uri_encode_points ps = Inr encoded"
proof (induction ps)
  case Nil
  show ?case by simp
next
  case (Cons p ps)
  then obtain encoded where "uri_encode_points ps = Inr encoded" by auto
  with Cons.prems show ?case by (cases p) simp_all
qed

lemma apiRequest_requests_nonempty:
  "requests (apiRequest base net endpoint options) \<noteq> []"
  unfolding apiRequest_requests fetchWithRetry_def
  by (rule loop_nonempty) (simp add: DEFAULT_RETRY_CONFIG_def)

text \<open>
  Claim C9, as the code has it. For a query of fewer than 2 code units
  \<open>getSearchSuggestions\<close> returns the empty structure and makes no request. For a
  query of at least 2 code units that is well formed it calls \<open>apiRequest\<close> with the
  encoded query, and at least one request is made.
\<close>

theorem getSearchSuggestions_threshold:
  "(length query < 2 \<longrightarrow>
      getSearchSuggestions base net query =
        \<lparr>requests = [], sleeps = [],
         outcome = Inr (Some \<lparr>shops = [], SearchSuggestions.products = [],
                              SearchSuggestions.categories = []\<rparr>)\<rparr>)
   \<and> (2 \<le> length query \<and> isWellFormed query \<longrightarrow>
        (\<exists>encoded. encodeURIComponent query = Inr encoded
           \<and> getSearchSuggestions base net query =
               apiRequest base net (''/search/suggestions?query='' @ encoded) no_options)
        \<and> requests (getSearchSuggestions base net query) \<noteq> [])"
proof -
  have a: "length query < 2 \<longrightarrow>
      getSearchSuggestions base net query =
        \<lparr>requests = [], sleeps = [],
         outcome = Inr (Some \<lparr>shops = [], SearchSuggestions.products = [],
                              SearchSuggestions.categories = []\<rparr>)\<rparr>"
    by (simp add: getSearchSuggestions_def)
  have b: "(\<exists>encoded. encodeURIComponent query = Inr encoded
           \<and> getSearchSuggestions base net query =
               apiRequest base net (''/search/suggestions?query='' @ encoded) no_options)
        \<and> requests (getSearchSuggestions base net query) \<noteq> []"
    if h: "2 \<le> length query" "isWellFormed query"
  proof -
    from h(2) obtain encoded where e: "encodeURIComponent query = Inr encoded"
      using uri_encode_points_well_formed[of "code_points query"]
      by (auto simp: isWellFormed_def encodeURIComponent_def)
    with h(1) have g: "getSearchSuggestions base net query =
               apiRequest base net (''/search/suggestions?query='' @ encoded) no_options"
      by (simp add: getSearchSuggestions_def)
    from e g apiRequest_requests_nonempty show ?thesis by simp
  qed
  from a b show ?thesis by blast
qed

theorem getSearchSuggestions_threshold_witness:
  "getSearchSuggestions default_base suggest_net (js ''a'') =
     \<lparr>requests = [], sleeps = [],
      outcome = Inr (Some \<lparr>shops = [], SearchSuggestions.products = [],
                           SearchSuggestions.categories = []\<rparr>)\<rparr>
   \<and> map fst (requests (getSearchSuggestions default_base suggest_net (js ''ab c''))) =
       [''https://shop.pantamak.com/api/v1/search/suggestions?query=ab%20c'']"
proof -
  have l: "length (js ''a'') < 2" "2 \<le> length (js ''ab c'')"
    by (simp_all add: js_def)
  have w: "isWellFormed (js ''ab c'')"
    by code_simp
  have e: "encodeURIComponent (js ''ab c'') = Inr ''ab%20c''" by code_simp
  have u: "map fst (requests (apiRequest default_base suggest_net
              (''/search/suggestions?query='' @ ''ab%20c'') no_options)) =
            [''https://shop.pantamak.com/api/v1/search/suggestions?query=ab%20c'']"
    by code_simp
  show ?thesis
    using getSearchSuggestions_threshold[of "js ''a''" default_base suggest_net]
      getSearchSuggestions_threshold[of "js ''ab c''" default_base suggest_net]
      l w e u
    by simp
qed

text \<open>
  The claim as stated fails for a query of 2 code units with an unpaired surrogate:
  \<open>encodeURIComponent\<close> throws, \<open>apiRequest\<close> is not called and no request is made.
\<close>

theorem unpaired_surrogate_counterexample:
  "2 \<le> length [0xD800, 0x61 :: 16 word]
   \<and> getSearchSuggestions default_base suggest_net [0xD800, 0x61] =
       \<lparr>requests = [], sleeps = [], outcome = Inl URIError\<rparr>"
  by code_simp



subsection \<open>Overlapping fetches of the products hook\<close>

text \<open>
  What \<open>getProducts\<close> raises is never named AbortError, so the test
  \<open>err.name !== 'AbortError'\<close> of the hook always holds.
\<close>

lemma getProducts_no_AbortError:
  assumes "outcome (getProducts base net params) = Inl e"
  shows "name_of e \<noteq> ''AbortError''"
proof -
  from assms have "instanceof_APIError e"
    by (auto simp: getProducts_def Let_def apiRequest_outcome normalize_typed split: sum.splits)
  then show ?thesis by (cases e) simp_all
qed

text \<open>
  Claim C3 requires that, of two overlapping fetches of one hook, only the later one
  sets the state. In the code the earlier one still does. Fetch A (page 1) is issued,
  then the parameters change and fetch B (page 2) is issued, which calls \<open>abort()\<close> on
  the controller of A; B is answered first and A afterwards. The hook ends with the
  data of A, and had the data of B in between.
\<close>

theorem stale_response_overwrites:
  "fetchProducts_settle
     (fetchProducts_settle
        (fetchProducts_begin True
           (effect_cleanup (fetchProducts_begin True (useProducts_initial True))))
        (outcome (getProducts default_base echo_net [(js ''page'', JNumber 2)])))
     (outcome (getProducts default_base echo_net [(js ''page'', JNumber 1)]))
   = \<lparr>loading = False, error = None,
      data = Some ''https://shop.pantamak.com/api/v1/products?page=1'',
      abortControllerRef = Some 1, aborted = [0, 0], created = 2\<rparr>
   \<and> data (fetchProducts_settle
        (fetchProducts_begin True
           (effect_cleanup (fetchProducts_begin True (useProducts_initial True))))
        (outcome (getProducts default_base echo_net [(js ''page'', JNumber 2)])))
     = Some ''https://shop.pantamak.com/api/v1/products?page=2''"
  by code_simp

end
